theory Spec2Isabelle
  imports Main "HOL-Library.Sublist"
begin

section \<open>The credential store (window.localStorage)\<close>

text \<open>
  The browser store is a string-keyed table of strings. \<open>getItem\<close> returns \<open>null\<close>
  (here \<open>None\<close>) for a missing key.
\<close>

type_synonym storage = "string \<rightharpoonup> string"

definition getItem :: "storage \<Rightarrow> string \<Rightarrow> string option" where
  "getItem st k = st k"

definition setItem :: "storage \<Rightarrow> string \<Rightarrow> string \<Rightarrow> storage" where
  "setItem st k v = st(k \<mapsto> v)"

definition removeItem :: "storage \<Rightarrow> string \<Rightarrow> storage" where
  "removeItem st k = st(k := None)"

text \<open>
  JavaScript truthiness of a value of type \<open>string | null\<close>, as tested by
  \<open>if (token)\<close> and \<open>!!token\<close>: \<open>null\<close> and the empty string are falsy.
\<close>

fun truthy :: "string option \<Rightarrow> bool" where
  "truthy None = False"
| "truthy (Some s) = (s \<noteq> [])"

section \<open>services/api.ts: the request client and its interceptors\<close>

text \<open>
  A request configuration as far as the interceptors read and write it: the
  \<open>Authorization\<close> header and the \<open>_retry\<close> mark.
\<close>

record request =
  req_method :: string
  url :: string
  authorization :: "string option"
  retry :: bool

text \<open>What the transport answers: a response axios resolves, or an error it rejects with
  (\<open>error.response?.status\<close>, \<open>error.message\<close>).\<close>

datatype 'd outcome = Resolved nat 'd | Rejected "nat option" string

record 'd response =
  status :: nat
  data :: 'd
  config :: request

record error =
  err_status :: "nat option"
  err_message :: string
  err_config :: request

text \<open>Network traffic, in order: the refresh call of line 71 (made with the global axios,
  so it passes no interceptor) and every request the client instance puts on the wire.\<close>

datatype net_event = RefreshPost string | Dispatch request

record world =
  storage :: storage
  href :: string
  net :: "net_event list"

text \<open>The backend is a parameter: it answers a request, or a refresh call, knowing the
  traffic so far (so it may answer 401 first and 200 on the retry).\<close>

record 'd backend =
  adapter :: "net_event list \<Rightarrow> request \<Rightarrow> 'd outcome"
  refresh_endpoint :: "net_event list \<Rightarrow> string \<Rightarrow> error + string"

text \<open>Request interceptor (lines 26-37): attach the bearer token when one is stored.\<close>

definition requestFulfilled :: "storage \<Rightarrow> request \<Rightarrow> request" where
  "requestFulfilled st cfg =
     (case getItem st ''access_token'' of
        None \<Rightarrow> cfg
      | Some token \<Rightarrow>
          if token \<noteq> [] then cfg\<lparr>authorization := Some (''Bearer '' @ token)\<rparr> else cfg)"

text \<open>The logout of the refresh catch block (lines 91-95).\<close>

definition forcedLogout :: "world \<Rightarrow> world" where
  "forcedLogout w =
     w\<lparr>storage := removeItem (removeItem (removeItem (storage w) ''access_token'')
                     ''refresh_token'') ''user'',
       href := ''/login''\<rparr>"

text \<open>
  \<open>client\<close> is \<open>this.client(config)\<close>: request interceptor, transport, response
  interceptor. \<open>responseRejected\<close> is the error handler of the response interceptor
  (lines 53-101); its retry re-enters \<open>client\<close> with the marked request. The promise
  returned by line 84 is not awaited inside the \<open>try\<close>, so a failing retry is not
  caught by the refresh \<open>catch\<close>.
\<close>

function client :: "'d backend \<Rightarrow> world \<Rightarrow> request \<Rightarrow> (error + 'd response) \<times> world"
  and responseRejected :: "'d backend \<Rightarrow> world \<Rightarrow> error \<Rightarrow> (error + 'd response) \<times> world"
where
  "client be w req =
     (let cfg = requestFulfilled (storage w) req;
          w1 = w\<lparr>net := net w @ [Dispatch cfg]\<rparr>
      in case adapter be (net w) cfg of
           Resolved st d \<Rightarrow> (Inr \<lparr>status = st, data = d, config = cfg\<rparr>, w1)
         | Rejected st m \<Rightarrow>
             responseRejected be w1 \<lparr>err_status = st, err_message = m, err_config = cfg\<rparr>)"
| "responseRejected be w err =
     (if err_status err = Some 401 \<and> \<not> retry (err_config err) then
        (let originalRequest = (err_config err)\<lparr>retry := True\<rparr>;
             propagate = (Inl (err\<lparr>err_config := originalRequest\<rparr>), w)
         in case getItem (storage w) ''refresh_token'' of
              None \<Rightarrow> propagate
            | Some refreshToken \<Rightarrow>
                if refreshToken \<noteq> [] then
                  (let w1 = w\<lparr>net := net w @ [RefreshPost refreshToken]\<rparr>
                   in case refresh_endpoint be (net w) refreshToken of
                        Inr access \<Rightarrow>
                          client be
                            (w1\<lparr>storage := setItem (storage w1) ''access_token'' access\<rparr>)
                            (originalRequest\<lparr>authorization := Some (''Bearer '' @ access)\<rparr>)
                      | Inl refreshError \<Rightarrow> (Inl refreshError, forcedLogout w1))
                else propagate)
      else (Inl err, w))"
  by pat_completeness auto
termination
  by (relation "measure (\<lambda>x. case x of
          Inl (be, w, req) \<Rightarrow> (if retry req then 1 else 3)
        | Inr (be, w, err) \<Rightarrow> (if retry (err_config err) then 0 else 2))")
     (auto simp: requestFulfilled_def split: option.splits)

declare client.simps [simp del] responseRejected.simps [simp del]

text \<open>The number of refresh calls in a stretch of traffic.\<close>

definition refresh_calls :: "net_event list \<Rightarrow> nat" where
  "refresh_calls evs =
     length (filter (\<lambda>e. case e of RefreshPost _ \<Rightarrow> True | Dispatch _ \<Rightarrow> False) evs)"

subsection \<open>A concrete backend and concrete worlds\<close>

text \<open>A backend that accepts only the token \<open>new\<close>, and hands it out for the refresh
  token \<open>r1\<close>.\<close>

definition refresh_request :: request where
  "refresh_request =
     \<lparr>req_method = ''post'', url = ''/auth/refresh/'', authorization = None, retry = False\<rparr>"

definition strict_backend :: "string backend" where
  "strict_backend =
     \<lparr>adapter = (\<lambda>h r. if authorization r = Some ''Bearer new''
                        then Resolved 200 ''ok'' else Rejected (Some 401) ''Unauthorized''),
      refresh_endpoint = (\<lambda>h t. if t = ''r1'' then Inr ''new''
                        else Inl \<lparr>err_status = Some 401, err_message = ''invalid token'',
                                  err_config = refresh_request\<rparr>)\<rparr>"

definition files_request :: request where
  "files_request =
     \<lparr>req_method = ''get'', url = ''/files/'', authorization = Some ''Bearer old'',
      retry = False\<rparr>"

definition expired_error :: error where
  "expired_error =
     \<lparr>err_status = Some 401, err_message = ''Unauthorized'', err_config = files_request\<rparr>"

definition world_of :: "storage \<Rightarrow> world" where
  "world_of st = \<lparr>storage = st, href = ''/'', net = []\<rparr>"

definition logged_in_storage :: "string \<Rightarrow> storage" where
  "logged_in_storage r =
     [''access_token'' \<mapsto> ''old'', ''refresh_token'' \<mapsto> r, ''user'' \<mapsto> ''{}'']"

section \<open>types/index.ts (src/unnamed/part_004): messages\<close>

datatype role = User | Assistant

record citation =
  cit_filename :: string
  page_number :: "int option"

record message =
  msg_id :: int
  role :: role
  content :: string
  file_ids :: "int list"
  citations :: "citation list option"
  created_at :: string

record chatResponse =
  conversation_id :: int
  cr_message :: message
  cr_response :: message
  cr_citations :: "citation list option"

record conversation =
  conv_id :: int
  conv_created_at :: string
  updated_at :: string
  conv_messages :: "message list"

section \<open>components/Chat/ChatInterface.tsx (src/unnamed/part_000)\<close>

text \<open>
  The closure of the interval callback of lines 161-173: the text being revealed, the
  \<open>index\<close> it has reached, the \<open>step\<close>, and the assistant message it rewrites.
\<close>

record reveal =
  fullText :: string
  index :: nat
  step :: nat
  response_id :: int
  reveal_citations :: "citation list"

text \<open>What the component does to the outside: calls of the API client, of the
  \<open>onConversationChange\<close> prop, and of \<open>console.error\<close>.\<close>

datatype chat_event =
    SendMessage string "int option" "int list option"
  | GetConversationHistory int
  | ConversationChange int
  | ConsoleError string

text \<open>
  The component's state (\<open>useState\<close>, \<open>useRef\<close>) together with the window's table
  of running intervals: \<open>intervals\<close> maps the id of every interval that was set and not
  yet cleared to its callback's closure; \<open>intervals_set\<close> counts the calls of
  \<open>setInterval\<close>, whose ids are positive.
\<close>

record chat =
  messages :: "message list"
  input :: string
  loading :: bool
  currentConversationId :: "int option"
  streamingIntervalRef :: "nat option"
  intervals :: "nat \<rightharpoonup> reveal"
  intervals_set :: nat
  mounted :: bool
  events :: "chat_event list"

record props =
  selectedFileIds :: "int list"
  conversationId :: "int option"
  onConversationChange :: bool

definition setInterval :: "reveal \<Rightarrow> chat \<Rightarrow> nat \<times> chat" where
  "setInterval r c =
     (Suc (intervals_set c),
      c\<lparr>intervals := (intervals c)(Suc (intervals_set c) \<mapsto> r),
        intervals_set := Suc (intervals_set c)\<rparr>)"

definition clearInterval :: "nat \<Rightarrow> chat \<Rightarrow> chat" where
  "clearInterval t c = c\<lparr>intervals := (intervals c)(t := None)\<rparr>"

text \<open>
  \<open>String.prototype.trim\<close>. A \<open>char\<close> stands for a UTF-16 code unit below 256; the
  white space and line terminator code units in that range are TAB, LF, VT, FF, CR, SP and
  the no-break space U+00A0. Code units from 256 on are outside the model.
\<close>

definition is_space :: "char \<Rightarrow> bool" where
  "is_space ch =
     (ch \<in> set [CHR 0x09, CHR 0x0A, CHR 0x0B, CHR 0x0C, CHR 0x0D, CHR 0x20, CHR 0xA0])"

definition trim :: "string \<Rightarrow> string" where
  "trim s = rev (dropWhile is_space (rev (dropWhile is_space s)))"

text \<open>Lines 114-120, with \<open>Date.now()\<close> and \<open>new Date().toISOString()\<close> passed in.\<close>

definition tempUserMessage :: "props \<Rightarrow> string \<Rightarrow> int \<times> string \<Rightarrow> message" where
  "tempUserMessage p userMessage now =
     \<lparr>msg_id = fst now, role = User, content = userMessage,
      file_ids = selectedFileIds p, citations = None, created_at = snd now\<rparr>"

text \<open>Lines 179-185.\<close>

definition errorMessage :: "int \<times> string \<Rightarrow> message" where
  "errorMessage now =
     \<lparr>msg_id = fst now, role = Assistant,
      content = ''Sorry, I encountered an error. Please try again.'',
      file_ids = [], citations = None, created_at = snd now\<rparr>"

text \<open>The updater of lines 152-156 and 164-168.\<close>

definition showContent :: "int \<Rightarrow> string \<Rightarrow> citation list \<Rightarrow> message list \<Rightarrow> message list" where
  "showContent rid txt cits ms =
     map (\<lambda>m. if msg_id m = rid then m\<lparr>content := txt, citations := Some cits\<rparr> else m) ms"

text \<open>\<open>response.citations || []\<close>\<close>

definition citationsOf :: "chatResponse \<Rightarrow> citation list" where
  "citationsOf response = (case cr_citations response of None \<Rightarrow> [] | Some cs \<Rightarrow> cs)"

text \<open>Lines 132-136: adopt the conversation id the server returned.\<close>

definition adoptConversation :: "props \<Rightarrow> chatResponse \<Rightarrow> chat \<Rightarrow> chat" where
  "adoptConversation p response c =
     (if Some (conversation_id response) \<noteq> currentConversationId c then
        c\<lparr>currentConversationId := Some (conversation_id response),
          events := events c @
            (if onConversationChange p then [ConversationChange (conversation_id response)]
             else [])\<rparr>
      else c)"

text \<open>Lines 138-147: drop the temporary message, append the server's two messages.\<close>

definition reconcile :: "message \<Rightarrow> chatResponse \<Rightarrow> message list \<Rightarrow> message list" where
  "reconcile tmp response prev =
     (let filtered = filter (\<lambda>m. msg_id m \<noteq> msg_id tmp) prev;
          assistantMsg = (cr_response response)
                           \<lparr>citations := Some (citationsOf response), content := []\<rparr>
      in filtered @ [cr_message response, assistantMsg])"

text \<open>Lines 149-174: show an empty reply at once, or start the interval.\<close>

definition startReveal :: "chatResponse \<Rightarrow> chat \<Rightarrow> chat" where
  "startReveal response c =
     (let full = content (cr_response response) in
      if length full = 0 then
        c\<lparr>messages := showContent (msg_id (cr_response response)) full (citationsOf response)
                         (messages c)\<rparr>
      else
        (let stp = max 10 (length full div 30);
             c1 = (case streamingIntervalRef c of
                     None \<Rightarrow> c
                   | Some t \<Rightarrow> if t \<noteq> 0 then clearInterval t c else c);
             (t, c2) = setInterval
                         \<lparr>fullText = full, index = 0, step = stp,
                          response_id = msg_id (cr_response response),
                          reveal_citations = citationsOf response\<rparr> c1
         in c2\<lparr>streamingIntervalRef := Some t\<rparr>))"

text \<open>
  \<open>handleSend\<close> (lines 105-193). \<open>t0\<close> is the clock when the form is submitted,
  \<open>t1\<close> the clock when the \<open>catch\<close> block runs, \<open>result\<close> what
  \<open>apiClient.sendMessage\<close> settles with.
\<close>

definition handleSend ::
  "props \<Rightarrow> int \<times> string \<Rightarrow> int \<times> string \<Rightarrow> error + chatResponse \<Rightarrow> chat \<Rightarrow> chat" where
  "handleSend p t0 t1 result c =
     (if trim (input c) = [] \<or> loading c then c
      else
        (let userMessage = trim (input c);
             tmp = tempUserMessage p userMessage t0;
             c1 = c\<lparr>input := [], loading := True, messages := messages c @ [tmp],
                    events := events c @
                      [SendMessage userMessage (currentConversationId c)
                         (if length (selectedFileIds p) > 0 then Some (selectedFileIds p)
                          else None)]\<rparr>;
             c2 = (case result of
                     Inr response \<Rightarrow>
                       (let c3 = adoptConversation p response c1;
                            c4 = c3\<lparr>messages := reconcile tmp response (messages c3)\<rparr>
                        in startReveal response c4)
                   | Inl err \<Rightarrow>
                       c1\<lparr>events := events c1 @ [ConsoleError ''[Chat] Error sending message''],
                          messages := filter (\<lambda>m. msg_id m \<noteq> msg_id tmp) (messages c1)
                                        @ [errorMessage t1]\<rparr>)
         in c2\<lparr>loading := False\<rparr>))"

text \<open>One firing of interval \<open>t\<close>: the callback of lines 161-173. A cleared interval
  does not fire.\<close>

definition revealTick :: "nat \<Rightarrow> chat \<Rightarrow> chat" where
  "revealTick t c =
     (case intervals c t of
        None \<Rightarrow> c
      | Some r \<Rightarrow>
          (let index' = min (length (fullText r)) (index r + step r);
               partial = take index' (fullText r);
               c1 = c\<lparr>intervals := (intervals c)(t \<mapsto> r\<lparr>index := index'\<rparr>),
                      messages := showContent (response_id r) partial (reveal_citations r)
                                    (messages c)\<rparr>
           in case streamingIntervalRef c1 of
                None \<Rightarrow> c1
              | Some cur \<Rightarrow>
                  if index' \<ge> length (fullText r) \<and> cur \<noteq> 0
                  then (clearInterval cur c1)\<lparr>streamingIntervalRef := None\<rparr>
                  else c1))"

text \<open>\<open>loadConversationHistory\<close> (lines 87-103).\<close>

definition loadConversationHistory :: "int \<Rightarrow> error + conversation \<Rightarrow> chat \<Rightarrow> chat" where
  "loadConversationHistory convId result c =
     (let c1 = c\<lparr>events := events c @ [GetConversationHistory convId]\<rparr>
      in case result of
           Inr conv \<Rightarrow> c1\<lparr>messages := conv_messages conv, currentConversationId := Some convId\<rparr>
         | Inl err \<Rightarrow>
             c1\<lparr>events := events c1 @
                   [ConsoleError ''[Chat] Failed to load conversation history:'']\<rparr>)"

text \<open>The effect of lines 80-85, run when the \<open>conversationId\<close> prop changes. The load
  is started on line 82 and settles only after line 83 has set the tracked id.\<close>

definition conversationEffect :: "props \<Rightarrow> error + conversation \<Rightarrow> chat \<Rightarrow> chat" where
  "conversationEffect p result c =
     (case conversationId p of
        None \<Rightarrow> c
      | Some cid \<Rightarrow>
          if cid \<noteq> 0 \<and> Some cid \<noteq> currentConversationId c
          then loadConversationHistory cid result (c\<lparr>currentConversationId := Some cid\<rparr>)
          else c)"

text \<open>
  Unmounting runs the cleanup functions that the component's effects returned. The two
  effects of this component (lines 76-78 and 80-85) return none, so nothing is cleared.
\<close>

definition unmount :: "chat \<Rightarrow> chat" where
  "unmount c = c\<lparr>mounted := False\<rparr>"

text \<open>
  The state a running reveal has reached when its index stands at \<open>k\<close>: the interval
  still set and the prefix shown, or the interval cleared and the whole text shown.
\<close>

definition revealed :: "nat \<Rightarrow> reveal \<Rightarrow> nat \<Rightarrow> chat \<Rightarrow> chat" where
  "revealed t r k c =
     (if k < length (fullText r) then
        c\<lparr>intervals := (intervals c)(t \<mapsto> r\<lparr>index := k\<rparr>),
          messages := showContent (response_id r) (take k (fullText r)) (reveal_citations r)
                        (messages c)\<rparr>
      else
        c\<lparr>intervals := (intervals c)(t := None),
          streamingIntervalRef := None,
          messages := showContent (response_id r) (fullText r) (reveal_citations r)
                        (messages c)\<rparr>)"


subsection \<open>A concrete chat session\<close>

definition fresh_chat :: chat where
  "fresh_chat =
     \<lparr>messages = [], input = ''hi '', loading = False, currentConversationId = None,
      streamingIntervalRef = None, intervals = Map.empty, intervals_set = 0,
      mounted = True, events = []\<rparr>"

definition dashboard_props :: props where
  "dashboard_props = \<lparr>selectedFileIds = [], conversationId = None, onConversationChange = True\<rparr>"

definition server_message :: "int \<Rightarrow> role \<Rightarrow> string \<Rightarrow> message" where
  "server_message i r txt =
     \<lparr>msg_id = i, role = r, content = txt, file_ids = [], citations = None,
      created_at = ''2024-01-01T00:00:00Z''\<rparr>"

text \<open>A reply of 25 characters: three ticks of ten.\<close>

definition reply :: "int \<Rightarrow> chatResponse" where
  "reply user_msg_id =
     \<lparr>conversation_id = 7,
      cr_message = server_message user_msg_id User ''hi'',
      cr_response = server_message 12 Assistant ''The answer is forty-two.!'',
      cr_citations = None\<rparr>"

definition network_error :: error where
  "network_error =
     \<lparr>err_status = None, err_message = ''Network Error'',
      err_config = \<lparr>req_method = ''post'', url = ''/chat/'', authorization = None,
                    retry = False\<rparr>\<rparr>"

text \<open>A chat that tracks conversation 7, and the props that ask for conversation 5.\<close>

definition tracking_seven :: chat where
  "tracking_seven = fresh_chat\<lparr>currentConversationId := Some 7\<rparr>"

definition asks_for_five :: props where
  "asks_for_five = dashboard_props\<lparr>conversationId := Some 5\<rparr>"

definition submit_time :: "int \<times> string" where
  "submit_time = (1700000000000, ''2023-11-14T22:13:20.000Z'')"

definition settle_time :: "int \<times> string" where
  "settle_time = (1700000000800, ''2023-11-14T22:13:20.800Z'')"

section \<open>types/index.ts (src/unnamed/part_004): files\<close>

datatype file_status = Pending | Uploaded | Processing | Ready | Failed | Deletion_failed

datatype ingestion_status = Not_started | In_progress | Partial | Complete | Ingestion_failed

record fileAsset =
  file_id :: int
  filename :: string
  file_type :: string
  file_size :: nat
  uploaded_at :: string
  file_status :: file_status
  ingestion_status :: ingestion_status
  deletion_failed :: bool
  metadata :: "(string \<times> string) list"

record fileListResponse =
  results :: "fileAsset list"
  count :: nat
  resp_page :: nat
  page_size :: nat
  total_pages :: nat

section \<open>components/FileList/FileList.tsx and the selection held by the dashboard
  (src/unnamed/part_001)\<close>

datatype file_call = ListFiles nat | DeleteFile int

text \<open>
  The state of the file list (\<open>files\<close>, \<open>page\<close>, ... and the two refs that mirror
  them), whether the poll interval of line 60 is set, the \<open>selectedFiles\<close> state of
  the dashboard that it receives as a prop, and the calls made to the API client.
\<close>

record fileList =
  files :: "fileAsset list"
  fl_loading :: bool
  page :: nat
  totalPages :: nat
  fl_error :: string
  pendingDeleteId :: "int option"
  filesRef :: "fileAsset list"
  pageRef :: nat
  polling :: bool
  selectedFiles :: "int list"
  file_calls :: "file_call list"

text \<open>\<open>err.message || fallback\<close>\<close>

definition messageOr :: "error \<Rightarrow> string \<Rightarrow> string" where
  "messageOr err fallback = (if err_message err \<noteq> [] then err_message err else fallback)"

text \<open>\<open>loadFiles\<close> (lines 37-52); \<open>result\<close> is what \<open>apiClient.listFiles\<close> settles with.\<close>

definition loadFiles :: "nat \<Rightarrow> error + fileListResponse \<Rightarrow> fileList \<Rightarrow> fileList" where
  "loadFiles pageNum result s =
     (let s1 = s\<lparr>fl_loading := True, file_calls := file_calls s @ [ListFiles pageNum]\<rparr>;
          s2 = (case result of
                  Inr response \<Rightarrow>
                    s1\<lparr>files := results response, filesRef := results response,
                       totalPages := total_pages response, page := resp_page response,
                       pageRef := resp_page response, fl_error := []\<rparr>
                | Inl err \<Rightarrow> s1\<lparr>fl_error := messageOr err ''Failed to load files''\<rparr>)
      in s2\<lparr>fl_loading := False\<rparr>)"

text \<open>The \<open>refresh\<close> handle (line 55) and one firing of the 5 s poll (lines 60-65).\<close>

definition refresh :: "error + fileListResponse \<Rightarrow> fileList \<Rightarrow> fileList" where
  "refresh result s = loadFiles (pageRef s) result s"

definition inFlight :: "fileAsset \<Rightarrow> bool" where
  "inFlight f = (file_status f \<in> set [Processing, Uploaded])"

definition pollTick :: "error + fileListResponse \<Rightarrow> fileList \<Rightarrow> fileList" where
  "pollTick result s =
     (if polling s \<and> list_ex inFlight (filesRef s) then loadFiles (pageRef s) result s
      else s)"

text \<open>The cleanup the mount effect returns (line 66): \<open>clearInterval(interval)\<close>.\<close>

definition unmountFileList :: "fileList \<Rightarrow> fileList" where
  "unmountFileList s = s\<lparr>polling := False\<rparr>"

text \<open>\<open>handleFileDelete\<close> of the dashboard (lines 33-35).\<close>

definition handleFileDelete :: "int \<Rightarrow> fileList \<Rightarrow> fileList" where
  "handleFileDelete fileId s =
     s\<lparr>selectedFiles := filter (\<lambda>i. i \<noteq> fileId) (selectedFiles s)\<rparr>"

definition requestDelete :: "int \<Rightarrow> fileList \<Rightarrow> fileList" where
  "requestDelete fileId s = s\<lparr>pendingDeleteId := Some fileId\<rparr>"

text \<open>
  \<open>confirmDelete\<close> (lines 114-124): the delete call, then the reload of the current
  page (which catches its own failure), then the dashboard's handler.
\<close>

definition confirmDelete ::
  "int \<Rightarrow> error + unit \<Rightarrow> error + fileListResponse \<Rightarrow> fileList \<Rightarrow> fileList" where
  "confirmDelete fileId deleted reloaded s =
     (let s1 = s\<lparr>file_calls := file_calls s @ [DeleteFile fileId]\<rparr>;
          s2 = (case deleted of
                  Inr _ \<Rightarrow> handleFileDelete fileId (loadFiles (page s) reloaded s1)
                | Inl err \<Rightarrow> s1\<lparr>fl_error := messageOr err ''Failed to delete file''\<rparr>)
      in s2\<lparr>pendingDeleteId := None\<rparr>)"

subsection \<open>A concrete file list\<close>

definition ready_file :: "int \<Rightarrow> fileAsset" where
  "ready_file i =
     \<lparr>file_id = i, filename = ''notes.pdf'', file_type = ''pdf'', file_size = 1024,
      uploaded_at = ''2024-01-01T00:00:00Z'', file_status = Ready,
      ingestion_status = Complete, deletion_failed = False, metadata = []\<rparr>"

definition listing :: "nat \<Rightarrow> fileAsset list \<Rightarrow> fileListResponse" where
  "listing p fs =
     \<lparr>results = fs, count = length fs, resp_page = p, page_size = 20, total_pages = 2\<rparr>"

text \<open>Files 1 and 2 are listed on page 1 and both are selected.\<close>

definition two_selected :: fileList where
  "two_selected =
     \<lparr>files = [ready_file 1, ready_file 2], fl_loading = False, page = 1, totalPages = 2,
      fl_error = [], pendingDeleteId = None, filesRef = [ready_file 1, ready_file 2],
      pageRef = 1, polling = True, selectedFiles = [1, 2], file_calls = []\<rparr>"

section \<open>components/FileUpload/FileUpload.tsx\<close>

text \<open>The chosen \<open>File\<close>: its name, its MIME type (\<open>file.type\<close>) and its size in
  bytes.\<close>

record chosenFile =
  file_name :: string
  mime_type :: string
  size_bytes :: nat

record presignResponse =
  presign_url :: string
  form_fields :: "(string \<times> string) list"
  s3_key :: string

text \<open>What \<open>handleFile\<close> does to the outside: the two callbacks of its props, the two
  API calls, and the form upload to the presigned address.\<close>

text \<open>
  The value of \<open>fileType\<close> (line 84): a string, or, when the extension names a member
  that the plain object \<open>fileTypeMap\<close> inherits, that member (a function or an object,
  which is truthy).
\<close>

datatype fileTypeValue = TypeString string | InheritedMember string

datatype upload_event =
    OnError string
  | OnUploadComplete fileAsset
  | PresignUpload string fileTypeValue nat
  | XhrPost string
  | FinalizeUpload string string fileTypeValue nat

fun is_network_call :: "upload_event \<Rightarrow> bool" where
  "is_network_call (OnError _) = False"
| "is_network_call (OnUploadComplete _) = False"
| "is_network_call _ = True"

text \<open>What the three network steps answer. The form upload ends with a status
  (\<open>load\<close>) or with a transport error (\<open>None\<close>).\<close>

record upload_backend =
  presign :: "error + presignResponse"
  xhr :: "nat option"
  finalize :: "error + fileAsset"

definition maxSize :: nat where
  "maxSize = 10 * 1024 * 1024"

definition allowedTypes :: "string list" where
  "allowedTypes =
     [''application/pdf'', ''text/plain'',
      ''application/vnd.openxmlformats-officedocument.wordprocessingml.document'',
      ''image/png'', ''image/jpeg'']"

text \<open>
  \<open>toLowerCase\<close> on code units below 256: the ASCII capitals, and the Latin-1 capitals
  U+00C0 to U+00DE without the multiplication sign U+00D7, each 32 below its small letter.
  \<open>name.split('.').pop()\<close> is the text after the last dot, or the whole name when it
  has no dot.
\<close>

definition lowerCaseChar :: "char \<Rightarrow> char" where
  "lowerCaseChar ch =
     (case map_of (zip ''ABCDEFGHIJKLMNOPQRSTUVWXYZ'' ''abcdefghijklmnopqrstuvwxyz'') ch of
        Some lower \<Rightarrow> lower
      | None \<Rightarrow>
          if 0xC0 \<le> (of_char ch :: nat) \<and> (of_char ch :: nat) \<le> 0xDE
             \<and> (of_char ch :: nat) \<noteq> 0xD7
          then char_of ((of_char ch :: nat) + 32) else ch)"

definition toLowerCase :: "string \<Rightarrow> string" where
  "toLowerCase s = map lowerCaseChar s"

definition lastSegment :: "string \<Rightarrow> string" where
  "lastSegment s = rev (takeWhile (\<lambda>ch. ch \<noteq> CHR ''.'') (rev s))"

definition fileTypeMap :: "string \<rightharpoonup> string" where
  "fileTypeMap =
     map_of [(''pdf'', ''pdf''), (''txt'', ''txt''), (''docx'', ''docx''), (''png'', ''png''),
             (''jpeg'', ''jpeg''), (''jpg'', ''jpeg'')]"

text \<open>
  The members a plain object inherits from \<open>Object.prototype\<close> whose names survive
  \<open>toLowerCase\<close>; the others (\<open>toString\<close>, \<open>valueOf\<close>, \<open>hasOwnProperty\<close>, ...)
  contain a capital, which a lower-cased extension never does.
\<close>

definition inheritedKeys :: "string list" where
  "inheritedKeys = [''constructor'', ''__proto__'']"

text \<open>Lines 75-84: \<open>fileTypeMap[fileExtension] || fileExtension\<close>.\<close>

definition fileTypeOf :: "string \<Rightarrow> fileTypeValue" where
  "fileTypeOf name =
     (let fileExtension = toLowerCase (lastSegment name)
      in case fileTypeMap fileExtension of
           Some t \<Rightarrow> if t \<noteq> [] then TypeString t else TypeString fileExtension
         | None \<Rightarrow>
             if fileExtension \<in> set inheritedKeys then InheritedMember fileExtension
             else TypeString fileExtension)"

text \<open>
  \<open>handleFile\<close> (lines 41-152). It returns the \<open>uploading\<close> flag it leaves and what it
  did. The progress bar (\<open>setProgress\<close>) is not modelled.
\<close>

definition handleFile :: "upload_backend \<Rightarrow> chosenFile \<Rightarrow> bool \<Rightarrow> bool \<times> upload_event list" where
  "handleFile be f uploading =
     (if size_bytes f > maxSize then
        (uploading, [OnError ''File size exceeds 10MB limit''])
      else if mime_type f \<notin> set allowedTypes then
        (uploading, [OnError ''File type not supported. Allowed: PDF, TXT, DOCX, PNG, JPEG''])
      else
        (let fileType = fileTypeOf (file_name f);
             ev1 = [PresignUpload (file_name f) fileType (size_bytes f)]
         in case presign be of
              Inl err \<Rightarrow> (False, ev1 @ [OnError (messageOr err ''Upload failed'')])
            | Inr presignData \<Rightarrow>
                (let ev2 = ev1 @ [XhrPost (presign_url presignData)]
                 in if xhr be = Some 204 \<or> xhr be = Some 200 then
                      (let ev3 = ev2 @ [FinalizeUpload (s3_key presignData) (file_name f)
                                          fileType (size_bytes f)]
                       in case finalize be of
                            Inl err \<Rightarrow> (False, ev3 @ [OnError (messageOr err ''Upload failed'')])
                          | Inr fileAsset \<Rightarrow> (False, ev3 @ [OnUploadComplete fileAsset]))
                    else (False, ev2 @ [OnError ''Upload failed'']))))"

subsection \<open>Concrete files\<close>

definition s3_backend :: upload_backend where
  "s3_backend =
     \<lparr>presign = Inr \<lparr>presign_url = ''https://bucket.example/'', form_fields = [],
                      s3_key = ''uploads/1''\<rparr>,
      xhr = Some 204,
      finalize = Inr (ready_file 9)\<rparr>"

definition big_zip :: chosenFile where
  "big_zip = \<lparr>file_name = ''backup.zip'', mime_type = ''application/zip'',
              size_bytes = 10485761\<rparr>"

definition big_pdf :: chosenFile where
  "big_pdf = \<lparr>file_name = ''scan.pdf'', mime_type = ''application/pdf'',
              size_bytes = 10485761\<rparr>"

definition small_zip :: chosenFile where
  "small_zip = \<lparr>file_name = ''backup.zip'', mime_type = ''application/zip'',
                size_bytes = 2048\<rparr>"

definition small_pdf :: chosenFile where
  "small_pdf = \<lparr>file_name = ''Report.PDF'', mime_type = ''application/pdf'',
                size_bytes = 10485760\<rparr>"

section \<open>services/auth.ts (src/unnamed/part_002) and store/authStore.ts
  (src/unnamed/part_003)\<close>

record user =
  user_id :: int
  username :: string
  email :: string
  first_name :: string
  last_name :: string

record authTokens =
  tok_access :: string
  tok_refresh :: string

record authResponse =
  auth_user :: user
  tokens :: authTokens

text \<open>
  \<open>JSON.stringify\<close> and \<open>JSON.parse\<close> on user profiles are parameters. \<open>parse\<close>
  gives \<open>None\<close> where line 63 or 64 throws.
\<close>

record json =
  stringify :: "user \<Rightarrow> string"
  parse :: "string \<Rightarrow> user option"

text \<open>\<open>setAuthData\<close> (lines 36-41).\<close>

definition setAuthData :: "json \<Rightarrow> authResponse \<Rightarrow> storage \<Rightarrow> storage" where
  "setAuthData js d st =
     setItem (setItem (setItem st ''access_token'' (tok_access (tokens d)))
                ''refresh_token'' (tok_refresh (tokens d)))
       ''user'' (stringify js (auth_user d))"

text \<open>\<open>authService.logout\<close> (lines 43-48).\<close>

definition authService_logout :: "storage \<Rightarrow> storage" where
  "authService_logout st =
     removeItem (removeItem (removeItem st ''access_token'') ''refresh_token'') ''user''"

text \<open>\<open>authService.isAuthenticated\<close> (lines 50-54): \<open>!!localStorage.getItem(...)\<close>.\<close>

definition authService_isAuthenticated :: "storage \<Rightarrow> bool" where
  "authService_isAuthenticated st = truthy (getItem st ''access_token'')"

text \<open>\<open>authService.getCurrentUser\<close> (lines 56-70).\<close>

definition authService_getCurrentUser :: "json \<Rightarrow> storage \<Rightarrow> user option" where
  "authService_getCurrentUser js st =
     (case getItem st ''user'' of
        None \<Rightarrow> None
      | Some userStr \<Rightarrow> if userStr = [] then None else parse js userStr)"

text \<open>The store's state, the credential store, and the calls made to the API client.\<close>

record authState =
  user :: "user option"
  isAuthenticated :: bool

datatype auth_call = LoginPost string string

record session =
  localStorage :: storage
  auth :: authState
  auth_calls :: "auth_call list"

text \<open>
  \<open>authService.login\<close> (lines 23-34); \<open>result\<close> is what \<open>apiClient.login\<close>
  settles with. A failure is rethrown.
\<close>

definition authService_login ::
  "json \<Rightarrow> string \<Rightarrow> string \<Rightarrow> error + authResponse \<Rightarrow> session
     \<Rightarrow> (error + authResponse) \<times> session" where
  "authService_login js name password result s =
     (let s1 = s\<lparr>auth_calls := auth_calls s @ [LoginPost name password]\<rparr>
      in case result of
           Inl err \<Rightarrow> (Inl err, s1)
         | Inr response \<Rightarrow>
             (Inr response, s1\<lparr>localStorage := setAuthData js response (localStorage s1)\<rparr>))"

text \<open>\<open>login\<close> of the store (lines 21-31).\<close>

definition login ::
  "json \<Rightarrow> string \<Rightarrow> string \<Rightarrow> error + authResponse \<Rightarrow> session \<Rightarrow> (error + unit) \<times> session" where
  "login js name password result s =
     (case authService_login js name password result s of
        (Inl err, s1) \<Rightarrow> (Inl err, s1)
      | (Inr response, s1) \<Rightarrow>
          (Inr (), s1\<lparr>auth := \<lparr>user = Some (auth_user response), isAuthenticated = True\<rparr>\<rparr>))"

text \<open>\<open>logout\<close> (lines 45-50) and \<open>checkAuth\<close> (lines 52-58) of the store.\<close>

definition logout :: "session \<Rightarrow> session" where
  "logout s =
     s\<lparr>localStorage := authService_logout (localStorage s),
       auth := \<lparr>user = None, isAuthenticated = False\<rparr>\<rparr>"

definition checkAuth :: "json \<Rightarrow> session \<Rightarrow> session" where
  "checkAuth js s =
     s\<lparr>auth := \<lparr>user = authService_getCurrentUser js (localStorage s),
                 isAuthenticated = authService_isAuthenticated (localStorage s)\<rparr>\<rparr>"

subsection \<open>A concrete login\<close>

definition alice :: user where
  "alice = \<lparr>user_id = 1, username = ''alice'', email = ''alice@example.org'',
            first_name = ''Alice'', last_name = ''A''\<rparr>"

text \<open>A codec that knows one profile.\<close>

definition alice_json :: json where
  "alice_json =
     \<lparr>stringify = (\<lambda>u. ''{id:1,username:'' @ username u @ ''}''),
      parse = (\<lambda>s. if s = ''{id:1,username:alice}'' then Some alice else None)\<rparr>"

definition login_reply :: "string \<Rightarrow> authResponse" where
  "login_reply a = \<lparr>auth_user = alice, tokens = \<lparr>tok_access = a, tok_refresh = ''r1''\<rparr>\<rparr>"

definition logged_out :: session where
  "logged_out =
     \<lparr>localStorage = Map.empty, auth = \<lparr>user = None, isAuthenticated = False\<rparr>,
      auth_calls = []\<rparr>"

text \<open>The storage that the login of \<open>alice\<close> leaves, in a session whose state is still the
  logged-out one.\<close>

definition stale_session :: session where
  "stale_session =
     (snd (login alice_json ''alice'' ''pw'' (Inr (login_reply ''a1'')) logged_out))
       \<lparr>auth := \<lparr>user = None, isAuthenticated = False\<rparr>, auth_calls := []\<rparr>"

section \<open>Properties of the request client\<close>

lemma retried_rejected:
  "retry (err_config err) \<Longrightarrow> responseRejected be w err = (Inl err, w)"
  by (simp add: responseRejected.simps)

lemma requestFulfilled_retry: "retry (requestFulfilled st cfg) = retry cfg"
  by (simp add: requestFulfilled_def split: option.splits)

lemma client_retried:
  "retry req \<Longrightarrow>
   client be w req =
     (let cfg = requestFulfilled (storage w) req;
          w1 = w\<lparr>net := net w @ [Dispatch cfg]\<rparr>
      in case adapter be (net w) cfg of
           Resolved st d \<Rightarrow> (Inr \<lparr>status = st, data = d, config = cfg\<rparr>, w1)
         | Rejected st m \<Rightarrow> (Inl \<lparr>err_status = st, err_message = m, err_config = cfg\<rparr>, w1))"
  by (simp add: client.simps Let_def retried_rejected requestFulfilled_retry split: outcome.splits)

lemma requestFulfilled_after_refresh:
  "authorization cfg = Some (''Bearer '' @ access) \<Longrightarrow>
   requestFulfilled (setItem st ''access_token'' access) cfg = cfg"
  by (simp add: requestFulfilled_def setItem_def getItem_def)

lemma no_refresh_token:
  assumes "err_status err = Some 401" "\<not> retry (err_config err)"
    and "\<not> truthy (getItem (storage w) ''refresh_token'')"
  shows "responseRejected be w err =
           (Inl (err\<lparr>err_config := (err_config err)\<lparr>retry := True\<rparr>\<rparr>), w)"
  using assms
  by (cases "getItem (storage w) ''refresh_token''")
     (simp_all add: responseRejected.simps [of be w err] Let_def)

lemma refresh_succeeds:
  assumes "err_status err = Some 401" "\<not> retry (err_config err)"
    and "getItem (storage w) ''refresh_token'' = Some tok" "tok \<noteq> []"
    and "refresh_endpoint be (net w) tok = Inr access"
  shows "responseRejected be w err =
     (let sent = (err_config err)\<lparr>retry := True, authorization := Some (''Bearer '' @ access)\<rparr>;
          w' = w\<lparr>storage := setItem (storage w) ''access_token'' access,
                 net := net w @ [RefreshPost tok, Dispatch sent]\<rparr>
      in case adapter be (net w @ [RefreshPost tok]) sent of
           Resolved st d \<Rightarrow> (Inr \<lparr>status = st, data = d, config = sent\<rparr>, w')
         | Rejected st m \<Rightarrow> (Inl \<lparr>err_status = st, err_message = m, err_config = sent\<rparr>, w'))"
  using assms
  by (simp add: responseRejected.simps [of be w err] Let_def client_retried
      requestFulfilled_after_refresh split: outcome.splits)

lemma refresh_fails:
  assumes "err_status err = Some 401" "\<not> retry (err_config err)"
    and "getItem (storage w) ''refresh_token'' = Some tok" "tok \<noteq> []"
    and "refresh_endpoint be (net w) tok = Inl refreshError"
  shows "responseRejected be w err =
     (Inl refreshError, forcedLogout (w\<lparr>net := net w @ [RefreshPost tok]\<rparr>))"
  using assms by (simp add: responseRejected.simps [of be w err] Let_def)

lemma refresh_calls_append:
  "refresh_calls (xs @ ys) = refresh_calls xs + refresh_calls ys"
  by (simp add: refresh_calls_def)

lemma at_most_one_refresh:
  "refresh_calls (net (snd (responseRejected be w err))) \<le> refresh_calls (net w) + 1"
proof (cases "err_status err = Some 401 \<and> \<not> retry (err_config err)")
  case False
  then show ?thesis by (auto simp: responseRejected.simps [of be w err])
next
  case True
  note first = this
  show ?thesis
  proof (cases "truthy (getItem (storage w) ''refresh_token'')")
    case False
    with first show ?thesis by (simp add: no_refresh_token)
  next
    case True
    then obtain tok where tok: "getItem (storage w) ''refresh_token'' = Some tok" "tok \<noteq> []"
      by (cases "getItem (storage w) ''refresh_token''") auto
    show ?thesis
    proof (cases "refresh_endpoint be (net w) tok")
      case (Inl e)
      with first tok show ?thesis
        by (simp add: refresh_fails forcedLogout_def refresh_calls_def)
    next
      case (Inr a)
      with first tok show ?thesis
        by (simp add: refresh_succeeds Let_def refresh_calls_def split: outcome.splits)
    qed
  qed
qed

lemma one_refresh_when_token:
  assumes "err_status err = Some 401" "\<not> retry (err_config err)"
    and "getItem (storage w) ''refresh_token'' = Some tok" "tok \<noteq> []"
  shows "refresh_calls (net (snd (responseRejected be w err))) = refresh_calls (net w) + 1"
proof (cases "refresh_endpoint be (net w) tok")
  case (Inl e)
  with assms show ?thesis
    by (simp add: refresh_fails forcedLogout_def refresh_calls_def)
next
  case (Inr a)
  with assms show ?thesis
    by (simp add: refresh_succeeds Let_def refresh_calls_def split: outcome.splits)
qed

text \<open>
  C1 (as the code has it). A request that receives 401 and is not yet marked is marked
  \<open>_retry\<close>; then the refresh token is read. When the stored value is missing or is the
  empty string, nothing is sent and the original error (its request now marked) is
  rejected. When a non-empty refresh token is stored, exactly one refresh call is made
  with it; when that call succeeds, the new access token is stored and the marked request
  is sent exactly once more with \<open>Bearer\<close> and the new token, and whatever that retry
  gives (response or error) is the result. In every case at most one refresh call is made.
\<close>

theorem refresh_once_on_401:
  assumes "err_status err = Some 401" and "\<not> retry (err_config err)"
  shows "(\<not> truthy (getItem (storage w) ''refresh_token'') \<longrightarrow>
            responseRejected be w err =
              (Inl (err\<lparr>err_config := (err_config err)\<lparr>retry := True\<rparr>\<rparr>), w))
       \<and> (\<forall>tok. getItem (storage w) ''refresh_token'' = Some tok \<and> tok \<noteq> [] \<longrightarrow>
            refresh_calls (net (snd (responseRejected be w err))) = refresh_calls (net w) + 1
          \<and> (\<forall>access. refresh_endpoint be (net w) tok = Inr access \<longrightarrow>
               responseRejected be w err =
                 (let sent = (err_config err)
                               \<lparr>retry := True, authorization := Some (''Bearer '' @ access)\<rparr>;
                      w' = w\<lparr>storage := setItem (storage w) ''access_token'' access,
                             net := net w @ [RefreshPost tok, Dispatch sent]\<rparr>
                  in case adapter be (net w @ [RefreshPost tok]) sent of
                       Resolved st d \<Rightarrow> (Inr \<lparr>status = st, data = d, config = sent\<rparr>, w')
                     | Rejected st m \<Rightarrow>
                         (Inl \<lparr>err_status = st, err_message = m, err_config = sent\<rparr>, w'))))
       \<and> refresh_calls (net (snd (responseRejected be w err))) \<le> refresh_calls (net w) + 1"
proof (intro conjI allI impI)
  assume "\<not> truthy (getItem (storage w) ''refresh_token'')"
  with assms show "responseRejected be w err =
      (Inl (err\<lparr>err_config := (err_config err)\<lparr>retry := True\<rparr>\<rparr>), w)"
    by (rule no_refresh_token)
next
  fix tok
  assume "getItem (storage w) ''refresh_token'' = Some tok \<and> tok \<noteq> []"
  with assms show "refresh_calls (net (snd (responseRejected be w err))) = refresh_calls (net w) + 1"
    by (simp add: one_refresh_when_token)
next
  fix tok access
  assume "getItem (storage w) ''refresh_token'' = Some tok \<and> tok \<noteq> []"
    and acc: "refresh_endpoint be (net w) tok = Inr access"
  then have t1: "getItem (storage w) ''refresh_token'' = Some tok" and t2: "tok \<noteq> []"
    by simp_all
  show "responseRejected be w err =
     (let sent = (err_config err)\<lparr>retry := True, authorization := Some (''Bearer '' @ access)\<rparr>;
          w' = w\<lparr>storage := setItem (storage w) ''access_token'' access,
                 net := net w @ [RefreshPost tok, Dispatch sent]\<rparr>
      in case adapter be (net w @ [RefreshPost tok]) sent of
           Resolved st d \<Rightarrow> (Inr \<lparr>status = st, data = d, config = sent\<rparr>, w')
         | Rejected st m \<Rightarrow> (Inl \<lparr>err_status = st, err_message = m, err_config = sent\<rparr>, w'))"
    by (rule refresh_succeeds [OF assms t1 t2 acc])
next
  show "refresh_calls (net (snd (responseRejected be w err))) \<le> refresh_calls (net w) + 1"
    by (rule at_most_one_refresh)
qed

theorem refresh_once_on_401_witness:
  "err_status expired_error = Some 401 \<and> \<not> retry (err_config expired_error)
   \<and> responseRejected strict_backend (world_of (logged_in_storage ''r1'')) expired_error =
       (Inr \<lparr>status = 200, data = ''ok'',
             config = files_request\<lparr>retry := True, authorization := Some ''Bearer new''\<rparr>\<rparr>,
        \<lparr>storage = (logged_in_storage ''r1'')(''access_token'' \<mapsto> ''new''),
         href = ''/'',
         net = [RefreshPost ''r1'',
                Dispatch (files_request\<lparr>retry := True, authorization := Some ''Bearer new''\<rparr>)]\<rparr>)
   \<and> responseRejected strict_backend (world_of Map.empty) expired_error =
       (Inl (expired_error\<lparr>err_config := files_request\<lparr>retry := True\<rparr>\<rparr>), world_of Map.empty)"
proof -
  have h1: "err_status expired_error = Some 401" and h2: "\<not> retry (err_config expired_error)"
    by (simp_all add: expired_error_def files_request_def)
  from refresh_once_on_401 [OF h1 h2, of "world_of (logged_in_storage ''r1'')" strict_backend]
       refresh_once_on_401 [OF h1 h2, of "world_of Map.empty" strict_backend]
  show ?thesis
    by (simp add: h1 h2 world_of_def logged_in_storage_def getItem_def setItem_def
        strict_backend_def expired_error_def files_request_def Let_def)
qed

text \<open>
  The claim as written fails where the stored refresh token is the empty string: the key
  is stored, yet no refresh call is made and the 401 is rejected.
\<close>

theorem refresh_once_on_401_counterexample:
  "err_status expired_error = Some 401 \<and> \<not> retry (err_config expired_error)
   \<and> getItem (storage (world_of (logged_in_storage ''''))) ''refresh_token'' = Some ''''
   \<and> refresh_calls (net (snd (responseRejected strict_backend
         (world_of (logged_in_storage '''')) expired_error))) = 0"
  by (simp add: responseRejected.simps expired_error_def files_request_def world_of_def
      logged_in_storage_def getItem_def refresh_calls_def Let_def)

text \<open>
  C2. When the refresh call made for a 401 fails, the three credential keys are removed,
  the location becomes \<open>/login\<close>, and the refresh error, not the 401, is rejected.
\<close>

theorem refresh_failure_logs_out:
  assumes "err_status err = Some 401" and "\<not> retry (err_config err)"
    and "getItem (storage w) ''refresh_token'' = Some tok" and "tok \<noteq> []"
    and "refresh_endpoint be (net w) tok = Inl refreshError"
  shows "fst (responseRejected be w err) = Inl refreshError
       \<and> getItem (storage (snd (responseRejected be w err))) ''access_token'' = None
       \<and> getItem (storage (snd (responseRejected be w err))) ''refresh_token'' = None
       \<and> getItem (storage (snd (responseRejected be w err))) ''user'' = None
       \<and> href (snd (responseRejected be w err)) = ''/login''
       \<and> net (snd (responseRejected be w err)) = net w @ [RefreshPost tok]"
  using assms
  by (simp add: refresh_fails forcedLogout_def getItem_def removeItem_def)

theorem refresh_failure_logs_out_witness:
  "err_status expired_error = Some 401 \<and> \<not> retry (err_config expired_error)
   \<and> getItem (storage (world_of (logged_in_storage ''r2''))) ''refresh_token'' = Some ''r2''
   \<and> ''r2'' \<noteq> ''''
   \<and> refresh_endpoint strict_backend (net (world_of (logged_in_storage ''r2''))) ''r2'' =
       Inl \<lparr>err_status = Some 401, err_message = ''invalid token'', err_config = refresh_request\<rparr>
   \<and> fst (responseRejected strict_backend (world_of (logged_in_storage ''r2'')) expired_error) =
       Inl \<lparr>err_status = Some 401, err_message = ''invalid token'', err_config = refresh_request\<rparr>
   \<and> storage (snd (responseRejected strict_backend (world_of (logged_in_storage ''r2''))
         expired_error)) ''user'' = None
   \<and> href (snd (responseRejected strict_backend (world_of (logged_in_storage ''r2''))
         expired_error)) = ''/login''"
proof -
  have h1: "err_status expired_error = Some 401" and h2: "\<not> retry (err_config expired_error)"
    by (simp_all add: expired_error_def files_request_def)
  have h3: "getItem (storage (world_of (logged_in_storage ''r2''))) ''refresh_token'' = Some ''r2''"
    by (simp add: world_of_def logged_in_storage_def getItem_def)
  have h4: "''r2'' \<noteq> ''''" by simp
  have h5: "refresh_endpoint strict_backend (net (world_of (logged_in_storage ''r2''))) ''r2'' =
       Inl \<lparr>err_status = Some 401, err_message = ''invalid token'', err_config = refresh_request\<rparr>"
    by (simp add: strict_backend_def)
  from refresh_failure_logs_out [OF h1 h2 h3 h4 h5] h1 h2 h3 h5
  show ?thesis by (simp add: getItem_def)
qed

section \<open>Properties of the chat component\<close>



lemma showContent_twice:
  "showContent rid a cits (showContent rid b cits ms) = showContent rid a cits ms"
  by (simp add: showContent_def)

lemma showContent_last:
  "ms \<noteq> [] \<Longrightarrow> msg_id (last ms) = rid \<Longrightarrow>
   content (last (showContent rid txt cits ms)) = txt"
  by (simp add: showContent_def last_map)

lemma revealTick_running:
  assumes "streamingIntervalRef c = Some t" "t \<noteq> 0" "intervals c t = Some r"
  shows "revealTick t c = revealed t r (index r + step r) c"
  using assms
  by (auto simp: revealTick_def revealed_def Let_def clearInterval_def min_def)

lemma revealTick_cleared: "intervals c t = None \<Longrightarrow> revealTick t c = c"
  by (simp add: revealTick_def)

lemma revealTicks:
  assumes "streamingIntervalRef c = Some t" "t \<noteq> 0" "intervals c t = Some r" "0 < n"
  shows "(revealTick t ^^ n) c = revealed t r (index r + n * step r) c"
  using \<open>0 < n\<close>
proof (induction n rule: nat_induct_non_zero)
  case 1
  from assms(1-3) show ?case by (simp add: revealTick_running)
next
  case (Suc n)
  show ?case
  proof (cases "index r + n * step r < length (fullText r)")
    case True
    let ?c = "revealed t r (index r + n * step r) c"
    let ?r = "r\<lparr>index := index r + n * step r\<rparr>"
    have "streamingIntervalRef ?c = Some t" "intervals ?c t = Some ?r"
      using True assms by (simp_all add: revealed_def)
    then have "revealTick t ?c = revealed t ?r (index ?r + step ?r) ?c"
      using assms(2) by (simp add: revealTick_running)
    also have "\<dots> = revealed t r (index r + Suc n * step r) c"
      using True by (simp add: revealed_def showContent_twice add.commute add.left_commute)
    finally show ?thesis using Suc.IH by simp
  next
    case False
    let ?c = "revealed t r (index r + n * step r) c"
    have "intervals ?c t = None" using False by (simp add: revealed_def)
    then have "revealTick t ?c = ?c" by (rule revealTick_cleared)
    moreover have "revealed t r (index r + Suc n * step r) c = ?c"
      using False by (simp add: revealed_def)
    ultimately show ?thesis using Suc.IH by simp
  qed
qed

lemma handleSend_reveal_state:
  assumes "trim (input c) \<noteq> []" "\<not> loading c" "content (cr_response r) \<noteq> []"
  shows "streamingIntervalRef (handleSend p t0 t1 (Inr r) c) = Some (Suc (intervals_set c))"
    and "intervals (handleSend p t0 t1 (Inr r) c) (Suc (intervals_set c)) =
           Some \<lparr>fullText = content (cr_response r), index = 0,
                 step = max 10 (length (content (cr_response r)) div 30),
                 response_id = msg_id (cr_response r), reveal_citations = citationsOf r\<rparr>"
  using assms
  by (auto simp: handleSend_def Let_def startReveal_def setInterval_def clearInterval_def
      adoptConversation_def split: option.splits)

lemma handleSend_success_messages:
  assumes "trim (input c) \<noteq> []" "\<not> loading c"
  shows "messages (handleSend p t0 t1 (Inr r) c) =
           (let ms = reconcile (tempUserMessage p (trim (input c)) t0) r
                       (messages c @ [tempUserMessage p (trim (input c)) t0])
            in if content (cr_response r) = []
               then showContent (msg_id (cr_response r)) [] (citationsOf r) ms else ms)"
  using assms
  by (auto simp: handleSend_def Let_def startReveal_def setInterval_def clearInterval_def
      adoptConversation_def split: option.splits)










lemma handleSend_failure_state:
  assumes "trim (input c) \<noteq> []" "\<not> loading c"
  shows "handleSend p t0 t1 (Inl e) c =
     c\<lparr>input := [], loading := False,
       messages := filter (\<lambda>m. msg_id m \<noteq> fst t0) (messages c) @ [errorMessage t1],
       events := events c @
         [SendMessage (trim (input c)) (currentConversationId c)
            (if length (selectedFileIds p) > 0 then Some (selectedFileIds p) else None),
          ConsoleError ''[Chat] Error sending message'']\<rparr>"
  using assms by (simp add: handleSend_def Let_def tempUserMessage_def)

text \<open>
  C7. A send that passes the guard and fails: every message carrying the temporary id is
  filtered out (the temporary user message is not in the new sequence) and one assistant
  message with the fixed text is appended. The sequence is the same whatever the error
  was. When the temporary id was fresh, the new sequence is the old one followed by the
  fixed message.
\<close>

theorem send_failure_apology:
  assumes "trim (input c) \<noteq> []" and "\<not> loading c"
  shows "messages (handleSend p t0 t1 (Inl e) c) =
           filter (\<lambda>m. msg_id m \<noteq> fst t0) (messages c) @ [errorMessage t1]
       \<and> tempUserMessage p (trim (input c)) t0 \<notin> set (messages (handleSend p t0 t1 (Inl e) c))
       \<and> errorMessage t1 =
           \<lparr>msg_id = fst t1, role = Assistant,
            content = ''Sorry, I encountered an error. Please try again.'',
            file_ids = [], citations = None, created_at = snd t1\<rparr>
       \<and> messages (handleSend p t0 t1 (Inl e) c) = messages (handleSend p t0 t1 (Inl e') c)
       \<and> (fst t0 \<notin> msg_id ` set (messages c) \<longrightarrow>
            messages (handleSend p t0 t1 (Inl e) c) = messages c @ [errorMessage t1])
       \<and> \<not> loading (handleSend p t0 t1 (Inl e) c)"
proof -
  have st: "messages (handleSend p t0 t1 (Inl x) c) =
           filter (\<lambda>m. msg_id m \<noteq> fst t0) (messages c) @ [errorMessage t1]" for x
    by (simp add: handleSend_failure_state [OF assms])
  have gone: "tempUserMessage p (trim (input c)) t0 \<notin>
               set (filter (\<lambda>m. msg_id m \<noteq> fst t0) (messages c) @ [errorMessage t1])"
    by (auto simp: tempUserMessage_def errorMessage_def)
  have fresh: "filter (\<lambda>m. msg_id m \<noteq> fst t0) (messages c) = messages c"
    if "fst t0 \<notin> msg_id ` set (messages c)"
  proof -
    have "msg_id m \<noteq> fst t0" if "m \<in> set (messages c)" for m
      using that \<open>fst t0 \<notin> msg_id ` set (messages c)\<close> by (metis imageI)
    then show ?thesis by (intro filter_True ballI)
  qed
  show ?thesis
    using gone fresh
    by (simp add: st errorMessage_def handleSend_failure_state [OF assms])
qed

theorem send_failure_apology_witness:
  "trim (input fresh_chat) \<noteq> [] \<and> \<not> loading fresh_chat
   \<and> fst submit_time \<notin> msg_id ` set (messages fresh_chat)
   \<and> messages (handleSend dashboard_props submit_time settle_time (Inl network_error) fresh_chat) =
       [\<lparr>msg_id = 1700000000800, role = Assistant,
         content = ''Sorry, I encountered an error. Please try again.'',
         file_ids = [], citations = None, created_at = ''2023-11-14T22:13:20.800Z''\<rparr>]"
proof -
  have h1: "trim (input fresh_chat) \<noteq> []"
    by (simp add: fresh_chat_def trim_def is_space_def)
  have h2: "\<not> loading fresh_chat" by (simp add: fresh_chat_def)
  have h3: "fst submit_time \<notin> msg_id ` set (messages fresh_chat)"
    by (simp add: fresh_chat_def)
  from send_failure_apology [OF h1 h2, of dashboard_props submit_time settle_time network_error]
  have "messages (handleSend dashboard_props submit_time settle_time (Inl network_error)
           fresh_chat) = messages fresh_chat @ [errorMessage settle_time]"
    using h3 by blast
  with h1 h2 h3 show ?thesis
    by (simp add: fresh_chat_def errorMessage_def settle_time_def)
qed

text \<open>The loader alone: on a rejected request it only adds to the trace.\<close>

lemma loadConversationHistory_failure:
  "loadConversationHistory convId (Inl e) c =
     c\<lparr>events := events c @
          [GetConversationHistory convId,
           ConsoleError ''[Chat] Failed to load conversation history:'']\<rparr>"
  by (simp add: loadConversationHistory_def Let_def)

text \<open>
  C10 (as the code has it). Every history load is started by the effect of lines 80-85,
  when the \<open>conversationId\<close> prop is a non-zero id other than the tracked one. When the
  request rejects, the message sequence is the one from before, no message is added, and
  the failure is only logged. The tracked conversation id is not the one from before: the
  effect has set it to the requested id. The loader's own failure path changes neither.
\<close>

theorem history_failure_keeps_messages:
  assumes "conversationId p = Some cid" and "cid \<noteq> 0"
    and "Some cid \<noteq> currentConversationId c"
  shows "conversationEffect p (Inl e) c =
           c\<lparr>currentConversationId := Some cid,
             events := events c @
               [GetConversationHistory cid,
                ConsoleError ''[Chat] Failed to load conversation history:'']\<rparr>
       \<and> messages (conversationEffect p (Inl e) c) = messages c
       \<and> currentConversationId (conversationEffect p (Inl e) c) = Some cid
       \<and> currentConversationId (conversationEffect p (Inl e) c) \<noteq> currentConversationId c
       \<and> messages (loadConversationHistory cid (Inl e) c) = messages c
       \<and> currentConversationId (loadConversationHistory cid (Inl e) c) =
           currentConversationId c"
  using assms
  by (simp add: conversationEffect_def loadConversationHistory_failure)

theorem history_failure_keeps_messages_witness:
  "conversationId asks_for_five = Some 5 \<and> (5::int) \<noteq> 0
   \<and> Some 5 \<noteq> currentConversationId tracking_seven
   \<and> messages (conversationEffect asks_for_five (Inl network_error) tracking_seven) =
       messages tracking_seven
   \<and> events (conversationEffect asks_for_five (Inl network_error) tracking_seven) =
       [GetConversationHistory 5, ConsoleError ''[Chat] Failed to load conversation history:'']
   \<and> currentConversationId (conversationEffect asks_for_five (Inl network_error) tracking_seven) =
       Some 5"
proof -
  have h1: "conversationId asks_for_five = Some 5"
    by (simp add: asks_for_five_def)
  have h2: "(5::int) \<noteq> 0" by simp
  have h3: "Some 5 \<noteq> currentConversationId tracking_seven"
    by (simp add: tracking_seven_def)
  have ev: "events tracking_seven = []"
    by (simp add: tracking_seven_def fresh_chat_def)
  note th = history_failure_keeps_messages [OF h1 h2 h3, of network_error]
  from th have st: "conversationEffect asks_for_five (Inl network_error) tracking_seven =
      tracking_seven\<lparr>currentConversationId := Some 5,
        events := events tracking_seven @
          [GetConversationHistory 5,
           ConsoleError ''[Chat] Failed to load conversation history:'']\<rparr>"
    by blast
  show ?thesis
    unfolding st using h1 h3 by (simp add: ev)
qed

text \<open>
  The claim as written fails for the tracked id: a chat that tracks conversation 7 and is
  asked for conversation 5 tracks 5 after the load has failed.
\<close>

theorem history_failure_counterexample:
  "currentConversationId tracking_seven = Some 7
   \<and> currentConversationId
         (conversationEffect asks_for_five (Inl network_error) tracking_seven) = Some 5"
  by (simp add: conversationEffect_def loadConversationHistory_def Let_def
      tracking_seven_def asks_for_five_def dashboard_props_def fresh_chat_def)

text \<open>Unmounting the chat view clears no interval.\<close>

lemma unmount_clears_nothing:
  "intervals (unmount c) = intervals c \<and> streamingIntervalRef (unmount c) = streamingIntervalRef c"
  by (simp add: unmount_def)

text \<open>
  C4 (what the code does). A reply of 25 characters is being revealed; after the first
  tick the view is unmounted. The interval is still set and the ref still holds it, and
  the next tick runs the callback: the index moves from 10 to 20.
\<close>

theorem unmount_keeps_reveal_interval:
  "\<not> mounted (unmount (revealTick 1
        (handleSend dashboard_props submit_time settle_time (Inr (reply 11)) fresh_chat)))
   \<and> streamingIntervalRef (unmount (revealTick 1
        (handleSend dashboard_props submit_time settle_time (Inr (reply 11)) fresh_chat))) = Some 1
   \<and> map_option index (intervals (unmount (revealTick 1
        (handleSend dashboard_props submit_time settle_time (Inr (reply 11)) fresh_chat))) 1) =
       Some 10
   \<and> map_option index (intervals (revealTick 1 (unmount (revealTick 1
        (handleSend dashboard_props submit_time settle_time (Inr (reply 11)) fresh_chat)))) 1) =
       Some 20"
  by (simp add: handleSend_def fresh_chat_def trim_def is_space_def Let_def reconcile_def
      startReveal_def adoptConversation_def setInterval_def clearInterval_def tempUserMessage_def
      reply_def server_message_def submit_time_def dashboard_props_def citationsOf_def
      revealTick_def unmount_def showContent_def)

lemma ticks_needed:
  assumes "0 < (stp::nat)"
  shows "n * stp < L \<longleftrightarrow> n < (L + stp - 1) div stp"
proof -
  have "n < (L + stp - 1) div stp \<longleftrightarrow> Suc n \<le> (L + stp - 1) div stp" by auto
  also have "\<dots> \<longleftrightarrow> Suc n * stp \<le> L + stp - 1"
    using assms by (simp only: less_eq_div_iff_mult_less_eq)
  also have "\<dots> \<longleftrightarrow> n * stp < L" using assms by auto
  finally show ?thesis by simp
qed

lemma reconcile_last:
  "last (reconcile tmp r prev) = (cr_response r)\<lparr>citations := Some (citationsOf r), content := []\<rparr>"
  "reconcile tmp r prev \<noteq> []"
  by (simp_all add: reconcile_def)

lemma handleSend_reveal_messages:
  assumes "trim (input c) \<noteq> []" "\<not> loading c" "content (cr_response r) \<noteq> []"
  shows "messages (handleSend p t0 t1 (Inr r) c) \<noteq> []"
    and "last (messages (handleSend p t0 t1 (Inr r) c)) =
           (cr_response r)\<lparr>citations := Some (citationsOf r), content := []\<rparr>"
  using assms
  by (simp_all add: handleSend_success_messages Let_def reconcile_last)

text \<open>
  C8. A send that passes the guard and succeeds with a non-empty reply of length \<open>L\<close>
  starts interval \<open>Suc (intervals_set c)\<close> with \<open>step = max 10 (L div 30)\<close>. After
  \<open>n\<close> ticks of it the assistant message (the last of the sequence) shows the first
  \<open>min L (n * step)\<close> characters of the reply, a prefix of it; the interval is still set
  exactly while \<open>n\<close> is below \<open>(L + step - 1) div step\<close>, the ceiling of
  \<open>L / step\<close>; from that tick on the whole text is shown and the ref is \<open>null\<close>.
\<close>

theorem reveal_progress:
  assumes "trim (input c) \<noteq> []" and "\<not> loading c" and "content (cr_response r) \<noteq> []"
  shows "\<forall>n. content (last (messages ((revealTick (Suc (intervals_set c)) ^^ n)
                  (handleSend p t0 t1 (Inr r) c)))) =
              take (min (length (content (cr_response r)))
                        (n * max 10 (length (content (cr_response r)) div 30)))
                   (content (cr_response r))
            \<and> prefix (content (last (messages ((revealTick (Suc (intervals_set c)) ^^ n)
                  (handleSend p t0 t1 (Inr r) c))))) (content (cr_response r))
            \<and> (intervals ((revealTick (Suc (intervals_set c)) ^^ n)
                  (handleSend p t0 t1 (Inr r) c)) (Suc (intervals_set c)) \<noteq> None
               \<longleftrightarrow> n < (length (content (cr_response r))
                         + max 10 (length (content (cr_response r)) div 30) - 1)
                        div max 10 (length (content (cr_response r)) div 30))
            \<and> (n \<ge> (length (content (cr_response r))
                         + max 10 (length (content (cr_response r)) div 30) - 1)
                        div max 10 (length (content (cr_response r)) div 30) \<longrightarrow>
                 content (last (messages ((revealTick (Suc (intervals_set c)) ^^ n)
                   (handleSend p t0 t1 (Inr r) c)))) = content (cr_response r)
               \<and> streamingIntervalRef ((revealTick (Suc (intervals_set c)) ^^ n)
                   (handleSend p t0 t1 (Inr r) c)) = None)"
proof
  fix n
  let ?full = "content (cr_response r)"
  let ?L = "length ?full"
  let ?stp = "max 10 (?L div 30)"
  let ?t = "Suc (intervals_set c)"
  let ?c = "handleSend p t0 t1 (Inr r) c"
  let ?r = "\<lparr>fullText = ?full, index = 0, step = ?stp,
             response_id = msg_id (cr_response r), reveal_citations = citationsOf r\<rparr>"
  let ?cn = "(revealTick ?t ^^ n) ?c"
  have stp: "0 < ?stp" by simp
  have L: "0 < ?L" using assms(3) by simp
  note st = handleSend_reveal_state [OF assms, of p t0 t1]
  note ms = handleSend_reveal_messages [OF assms, of p t0 t1]
  have iff: "n * ?stp < ?L \<longleftrightarrow> n < (?L + ?stp - 1) div ?stp"
    using stp by (rule ticks_needed)
  have shown: "content (last (messages ?cn)) = take (min ?L (n * ?stp)) ?full"
  proof (cases "n = 0")
    case True
    then show ?thesis by (simp add: ms)
  next
    case False
    then have "?cn = revealed ?t ?r (index ?r + n * step ?r) ?c"
      using revealTicks [OF st(1) _ st(2), of n] by simp
    then have "messages ?cn =
        showContent (msg_id (cr_response r)) (take (min ?L (n * ?stp)) ?full) (citationsOf r)
          (messages ?c)"
      by (simp add: revealed_def min_def)
    then show ?thesis
      using ms by (simp add: showContent_last)
  qed
  have timer: "intervals ?cn ?t \<noteq> None \<longleftrightarrow> n * ?stp < ?L"
    and ref: "n * ?stp \<ge> ?L \<Longrightarrow> streamingIntervalRef ?cn = None"
  proof -
    show "intervals ?cn ?t \<noteq> None \<longleftrightarrow> n * ?stp < ?L"
    proof (cases "n = 0")
      case True
      then show ?thesis using st L by simp
    next
      case False
      then have "?cn = revealed ?t ?r (index ?r + n * step ?r) ?c"
        using revealTicks [OF st(1) _ st(2), of n] by simp
      then show ?thesis by (simp add: revealed_def)
    qed
    show "streamingIntervalRef ?cn = None" if "n * ?stp \<ge> ?L"
    proof -
      from that L have "n \<noteq> 0" by (cases n) auto
      then have "?cn = revealed ?t ?r (index ?r + n * step ?r) ?c"
        using revealTicks [OF st(1) _ st(2), of n] by simp
      with that show ?thesis by (simp add: revealed_def)
    qed
  qed
  have fin: "content (last (messages ?cn)) = ?full \<and> streamingIntervalRef ?cn = None"
    if "n \<ge> (?L + ?stp - 1) div ?stp"
  proof -
    from that iff have "n * ?stp \<ge> ?L" by simp
    with shown ref show ?thesis by simp
  qed
  show "content (last (messages ?cn)) = take (min ?L (n * ?stp)) ?full
      \<and> prefix (content (last (messages ?cn))) ?full
      \<and> (intervals ?cn ?t \<noteq> None \<longleftrightarrow> n < (?L + ?stp - 1) div ?stp)
      \<and> (n \<ge> (?L + ?stp - 1) div ?stp \<longrightarrow>
           content (last (messages ?cn)) = ?full \<and> streamingIntervalRef ?cn = None)"
    using shown timer iff fin by (simp add: take_is_prefix)
qed

theorem reveal_progress_witness:
  "trim (input fresh_chat) \<noteq> [] \<and> \<not> loading fresh_chat
   \<and> content (cr_response (reply 11)) \<noteq> []
   \<and> content (last (messages ((revealTick (Suc (intervals_set fresh_chat)) ^^ 2)
         (handleSend dashboard_props submit_time settle_time (Inr (reply 11)) fresh_chat)))) =
       ''The answer is forty-''
   \<and> intervals ((revealTick (Suc (intervals_set fresh_chat)) ^^ 2)
         (handleSend dashboard_props submit_time settle_time (Inr (reply 11)) fresh_chat))
         (Suc (intervals_set fresh_chat)) \<noteq> None
   \<and> content (last (messages ((revealTick (Suc (intervals_set fresh_chat)) ^^ 3)
         (handleSend dashboard_props submit_time settle_time (Inr (reply 11)) fresh_chat)))) =
       ''The answer is forty-two.!''
   \<and> intervals ((revealTick (Suc (intervals_set fresh_chat)) ^^ 3)
         (handleSend dashboard_props submit_time settle_time (Inr (reply 11)) fresh_chat))
         (Suc (intervals_set fresh_chat)) = None
   \<and> streamingIntervalRef ((revealTick (Suc (intervals_set fresh_chat)) ^^ 3)
         (handleSend dashboard_props submit_time settle_time (Inr (reply 11)) fresh_chat)) = None"
proof -
  have h1: "trim (input fresh_chat) \<noteq> []"
    by (simp add: fresh_chat_def trim_def is_space_def)
  have h2: "\<not> loading fresh_chat" by (simp add: fresh_chat_def)
  have h3: "content (cr_response (reply 11)) \<noteq> []"
    by (simp add: reply_def server_message_def)
  have full: "content (cr_response (reply 11)) = ''The answer is forty-two.!''"
    by (simp add: reply_def server_message_def)
  note th = reveal_progress [OF h1 h2 h3, of dashboard_props submit_time settle_time]
  from th [THEN spec, of 2] th [THEN spec, of 3] h1 h2
  show ?thesis unfolding full by simp
qed


section \<open>Properties of the file list\<close>

lemma loadFiles_selection: "selectedFiles (loadFiles pageNum result s) = selectedFiles s"
  by (simp add: loadFiles_def Let_def split: sum.splits)

lemma confirmDelete_selection:
  "selectedFiles (confirmDelete fileId (Inr u) reloaded s) =
     filter (\<lambda>i. i \<noteq> fileId) (selectedFiles s)"
  by (simp add: confirmDelete_def Let_def handleFileDelete_def loadFiles_selection)

text \<open>The poll is cancelled on teardown: after the cleanup no tick reloads.\<close>

lemma poll_cleared_on_unmount: "pollTick result (unmountFileList s) = unmountFileList s"
  by (simp add: pollTick_def unmountFileList_def)

text \<open>
  C3 (as the code has it). A reload never touches the selection. A confirmed deletion
  that succeeds removes the deleted id, and only it, from the selection. So after such a
  deletion the selection is a subset of the listed ids whenever every other selected id
  is still in the reloaded list.
\<close>

theorem deletion_prunes_deleted_id:
  "selectedFiles (loadFiles pageNum result s) = selectedFiles s
   \<and> selectedFiles (pollTick result s) = selectedFiles s
   \<and> selectedFiles (confirmDelete fileId (Inr u) reloaded s) =
       filter (\<lambda>i. i \<noteq> fileId) (selectedFiles s)
   \<and> fileId \<notin> set (selectedFiles (confirmDelete fileId (Inr u) reloaded s))
   \<and> (set (selectedFiles s) - {fileId}
         \<subseteq> file_id ` set (files (confirmDelete fileId (Inr u) reloaded s)) \<longrightarrow>
       set (selectedFiles (confirmDelete fileId (Inr u) reloaded s))
         \<subseteq> file_id ` set (files (confirmDelete fileId (Inr u) reloaded s)))"
proof -
  have "set (filter (\<lambda>i. i \<noteq> fileId) (selectedFiles s)) = set (selectedFiles s) - {fileId}"
    by auto
  then show ?thesis
    by (simp add: loadFiles_selection confirmDelete_selection pollTick_def)
qed

theorem deletion_prunes_deleted_id_witness:
  "set (selectedFiles two_selected) - {1}
     \<subseteq> file_id ` set (files (confirmDelete 1 (Inr ()) (Inr (listing 1 [ready_file 2]))
                              two_selected))
   \<and> selectedFiles (confirmDelete 1 (Inr ()) (Inr (listing 1 [ready_file 2])) two_selected) = [2]
   \<and> set (selectedFiles (confirmDelete 1 (Inr ()) (Inr (listing 1 [ready_file 2])) two_selected))
     \<subseteq> file_id ` set (files (confirmDelete 1 (Inr ()) (Inr (listing 1 [ready_file 2]))
                              two_selected))"
proof -
  have fs: "files (confirmDelete 1 (Inr ()) (Inr (listing 1 [ready_file 2])) two_selected) =
      [ready_file 2]"
    by (simp add: confirmDelete_def loadFiles_def handleFileDelete_def listing_def Let_def)
  have h: "set (selectedFiles two_selected) - {1}
     \<subseteq> file_id ` set (files (confirmDelete 1 (Inr ()) (Inr (listing 1 [ready_file 2]))
                              two_selected))"
    unfolding fs by (auto simp: two_selected_def ready_file_def)
  from deletion_prunes_deleted_id [of 1 "Inr (listing 1 [ready_file 2])" two_selected
        1 "()" "Inr (listing 1 [ready_file 2])"] h
  show ?thesis by (simp add: two_selected_def)
qed

text \<open>
  The claim as written fails on a reload: with files 1 and 2 selected, loading page 2
  (which lists file 3) leaves both selected; and deleting file 1, when the reload no
  longer lists file 2 either, leaves 2 selected.
\<close>

theorem selection_subset_counterexample:
  "set (selectedFiles two_selected) \<subseteq> file_id ` set (files two_selected)
   \<and> files (loadFiles 2 (Inr (listing 2 [ready_file 3])) two_selected) = [ready_file 3]
   \<and> selectedFiles (loadFiles 2 (Inr (listing 2 [ready_file 3])) two_selected) = [1, 2]
   \<and> \<not> set (selectedFiles (loadFiles 2 (Inr (listing 2 [ready_file 3])) two_selected))
         \<subseteq> file_id ` set (files (loadFiles 2 (Inr (listing 2 [ready_file 3])) two_selected))
   \<and> files (confirmDelete 1 (Inr ()) (Inr (listing 1 [])) two_selected) = []
   \<and> selectedFiles (confirmDelete 1 (Inr ()) (Inr (listing 1 [])) two_selected) = [2]"
  by (simp add: two_selected_def loadFiles_def confirmDelete_def handleFileDelete_def
      listing_def ready_file_def Let_def)

section \<open>Properties of the upload handler\<close>

text \<open>A file that passes both checks goes through the three network steps.\<close>

lemma handleFile_accepts:
  "handleFile s3_backend small_pdf False = (False, [PresignUpload ''Report.PDF'' (TypeString ''pdf'') 10485760,
      XhrPost ''https://bucket.example/'',
      FinalizeUpload ''uploads/1'' ''Report.PDF'' (TypeString ''pdf'') 10485760,
      OnUploadComplete (ready_file 9)])"
  by (simp add: handleFile_def s3_backend_def small_pdf_def maxSize_def allowedTypes_def
   fileTypeOf_def toLowerCase_def lowerCaseChar_def lastSegment_def fileTypeMap_def Let_def)

text \<open>An extension that names an inherited member is looked up as that member.\<close>

lemma fileTypeOf_inherited: "fileTypeOf ''x.constructor'' = InheritedMember ''constructor''"
  by (simp add: fileTypeOf_def toLowerCase_def lowerCaseChar_def lastSegment_def
      fileTypeMap_def inheritedKeys_def Let_def)

text \<open>
  C5 (as the code has it). A file larger than 10 * 1024 * 1024 bytes is reported with
  exactly \<open>File size exceeds 10MB limit\<close>; a file within the limit whose MIME type is
  not in the allow-list is reported with the type error. In both cases nothing else
  happens: no network call is made.
\<close>

theorem upload_validation:
  "(size_bytes f > 10 * 1024 * 1024 \<longrightarrow>
      handleFile be f uploading = (uploading, [OnError ''File size exceeds 10MB limit'']))
   \<and> (size_bytes f \<le> 10 * 1024 * 1024 \<and> mime_type f \<notin> set allowedTypes \<longrightarrow>
      handleFile be f uploading =
        (uploading, [OnError ''File type not supported. Allowed: PDF, TXT, DOCX, PNG, JPEG'']))
   \<and> (size_bytes f > 10 * 1024 * 1024 \<or> mime_type f \<notin> set allowedTypes \<longrightarrow>
      filter is_network_call (snd (handleFile be f uploading)) = [])"
  by (auto simp: handleFile_def maxSize_def)

theorem upload_validation_witness:
  "size_bytes big_pdf > 10 * 1024 * 1024
   \<and> handleFile s3_backend big_pdf False = (False, [OnError ''File size exceeds 10MB limit''])
   \<and> size_bytes small_zip \<le> 10 * 1024 * 1024 \<and> mime_type small_zip \<notin> set allowedTypes
   \<and> handleFile s3_backend small_zip False =
       (False, [OnError ''File type not supported. Allowed: PDF, TXT, DOCX, PNG, JPEG''])
   \<and> filter is_network_call (snd (handleFile s3_backend small_zip False)) = []"
proof -
  have h1: "size_bytes big_pdf > 10 * 1024 * 1024" by (simp add: big_pdf_def)
  have h2: "size_bytes small_zip \<le> 10 * 1024 * 1024 \<and> mime_type small_zip \<notin> set allowedTypes"
    by (simp add: small_zip_def allowedTypes_def)
  from upload_validation [of big_pdf s3_backend False]
       upload_validation [of small_zip s3_backend False] h1 h2
  show ?thesis by simp
qed

text \<open>
  The claim as written fails for an oversized file of a type outside the allow-list: the
  size check comes first, so the size error is reported and no type error.
\<close>

theorem upload_validation_counterexample:
  "mime_type big_zip \<notin> set allowedTypes
   \<and> handleFile s3_backend big_zip False = (False, [OnError ''File size exceeds 10MB limit''])
   \<and> OnError ''File type not supported. Allowed: PDF, TXT, DOCX, PNG, JPEG''
       \<notin> set (snd (handleFile s3_backend big_zip False))"
  by (simp add: handleFile_def big_zip_def maxSize_def allowedTypes_def)


section \<open>Properties of the session\<close>

lemma isAuthenticated_iff:
  "authService_isAuthenticated st \<longleftrightarrow> (\<exists>t. getItem st ''access_token'' = Some t \<and> t \<noteq> [])"
  by (cases "getItem st ''access_token''") (simp_all add: authService_isAuthenticated_def)

text \<open>\<open>checkAuth\<close> reads the credential store only, and writes the store's state only.\<close>

lemma checkAuth_from_storage:
  "auth (checkAuth js s) =
     \<lparr>user = authService_getCurrentUser js (localStorage s),
      isAuthenticated = authService_isAuthenticated (localStorage s)\<rparr>
   \<and> localStorage (checkAuth js s) = localStorage s
   \<and> auth_calls (checkAuth js s) = auth_calls s"
  by (simp add: checkAuth_def)

text \<open>
  C9 (as the code has it). After a login that succeeds with a non-empty access token, the
  store holds the returned access token, the refresh token and the serialised profile;
  \<open>isAuthenticated()\<close> is true, as it is exactly when a non-empty string is stored under
  \<open>access_token\<close>. \<open>checkAuth\<close>, where the parser reads back what the serialiser wrote,
  derives the logged-in user and the flag from the storage alone: in every session that
  holds the storage the login left, whatever its state was (after a page reload it is
  the initial one), it sets that user and \<open>true\<close>, changes nothing in the storage and
  makes no call. In particular it leaves the session as the login left it.
\<close>

theorem login_then_checkAuth:
  assumes "tok_access (tokens r) \<noteq> []"
    and "stringify js (auth_user r) \<noteq> []"
    and "parse js (stringify js (auth_user r)) = Some (auth_user r)"
  shows "getItem (localStorage (snd (login js name password (Inr r) s))) ''access_token'' =
           Some (tok_access (tokens r))
       \<and> getItem (localStorage (snd (login js name password (Inr r) s))) ''refresh_token'' =
           Some (tok_refresh (tokens r))
       \<and> getItem (localStorage (snd (login js name password (Inr r) s))) ''user'' =
           Some (stringify js (auth_user r))
       \<and> authService_isAuthenticated (localStorage (snd (login js name password (Inr r) s)))
       \<and> (\<forall>st. authService_isAuthenticated st \<longleftrightarrow>
                 (\<exists>t. getItem st ''access_token'' = Some t \<and> t \<noteq> []))
       \<and> auth (snd (login js name password (Inr r) s)) =
           \<lparr>user = Some (auth_user r), isAuthenticated = True\<rparr>
       \<and> (\<forall>s'. localStorage s' = localStorage (snd (login js name password (Inr r) s)) \<longrightarrow>
              auth (checkAuth js s') = \<lparr>user = Some (auth_user r), isAuthenticated = True\<rparr>
            \<and> localStorage (checkAuth js s') = localStorage s'
            \<and> auth_calls (checkAuth js s') = auth_calls s')
       \<and> checkAuth js (snd (login js name password (Inr r) s)) =
           snd (login js name password (Inr r) s)
       \<and> auth_calls (checkAuth js (snd (login js name password (Inr r) s))) =
           auth_calls s @ [LoginPost name password]"
proof (intro conjI allI)
  fix st
  show "authService_isAuthenticated st \<longleftrightarrow>
          (\<exists>t. getItem st ''access_token'' = Some t \<and> t \<noteq> [])"
    by (rule isAuthenticated_iff)
qed (use assms in \<open>simp_all add: login_def authService_login_def checkAuth_def setAuthData_def getItem_def
      setItem_def Let_def authService_isAuthenticated_def authService_getCurrentUser_def\<close>)

theorem login_then_checkAuth_witness:
  "tok_access (tokens (login_reply ''a1'')) \<noteq> []
   \<and> stringify alice_json (auth_user (login_reply ''a1'')) \<noteq> []
   \<and> parse alice_json (stringify alice_json (auth_user (login_reply ''a1''))) =
       Some (auth_user (login_reply ''a1''))
   \<and> authService_isAuthenticated
       (localStorage (snd (login alice_json ''alice'' ''pw'' (Inr (login_reply ''a1'')) logged_out)))
   \<and> localStorage stale_session =
       localStorage (snd (login alice_json ''alice'' ''pw'' (Inr (login_reply ''a1'')) logged_out))
   \<and> auth stale_session = \<lparr>user = None, isAuthenticated = False\<rparr>
   \<and> auth (checkAuth alice_json stale_session) = \<lparr>user = Some alice, isAuthenticated = True\<rparr>
   \<and> auth_calls (checkAuth alice_json stale_session) = []
   \<and> auth (checkAuth alice_json
         (snd (login alice_json ''alice'' ''pw'' (Inr (login_reply ''a1'')) logged_out))) =
       \<lparr>user = Some alice, isAuthenticated = True\<rparr>"
proof -
  have h1: "tok_access (tokens (login_reply ''a1'')) \<noteq> []"
    by (simp add: login_reply_def)
  have h2: "stringify alice_json (auth_user (login_reply ''a1'')) \<noteq> []"
    by (simp add: alice_json_def)
  have h3: "parse alice_json (stringify alice_json (auth_user (login_reply ''a1''))) =
       Some (auth_user (login_reply ''a1''))"
    by (simp add: alice_json_def login_reply_def alice_def)
  have u: "auth_user (login_reply ''a1'') = alice" by (simp add: login_reply_def)
  have h4: "localStorage stale_session =
       localStorage (snd (login alice_json ''alice'' ''pw'' (Inr (login_reply ''a1'')) logged_out))"
    by (simp add: stale_session_def)
  have st: "auth stale_session = \<lparr>user = None, isAuthenticated = False\<rparr>"
    and calls: "auth_calls stale_session = []"
    by (simp_all add: stale_session_def)
  note th = login_then_checkAuth [OF h1 h2 h3, of "''alice''" "''pw''" logged_out]
  from th h4 have a: "auth (checkAuth alice_json stale_session) =
      \<lparr>user = Some (auth_user (login_reply ''a1'')), isAuthenticated = True\<rparr>"
    and c: "auth_calls (checkAuth alice_json stale_session) = auth_calls stale_session"
    by blast+
  from th have b: "authService_isAuthenticated
       (localStorage (snd (login alice_json ''alice'' ''pw'' (Inr (login_reply ''a1'')) logged_out)))"
    and d: "checkAuth alice_json
         (snd (login alice_json ''alice'' ''pw'' (Inr (login_reply ''a1'')) logged_out)) =
       snd (login alice_json ''alice'' ''pw'' (Inr (login_reply ''a1'')) logged_out)"
    and e: "auth (snd (login alice_json ''alice'' ''pw'' (Inr (login_reply ''a1'')) logged_out)) =
      \<lparr>user = Some (auth_user (login_reply ''a1'')), isAuthenticated = True\<rparr>"
    by blast+
  show ?thesis
    using h1 h2 h3 h4 st b by (simp add: a c d e u calls)
qed

text \<open>
  The claim as written fails when the access token the server returned is the empty
  string: the login succeeds and the token is stored, but \<open>isAuthenticated()\<close> is false,
  and \<open>checkAuth\<close> turns the flag that the login set to false.
\<close>

theorem login_then_checkAuth_counterexample:
  "fst (login alice_json ''alice'' ''pw'' (Inr (login_reply '''')) logged_out) = Inr ()
   \<and> getItem (localStorage (snd (login alice_json ''alice'' ''pw'' (Inr (login_reply ''''))
         logged_out))) ''access_token'' = Some ''''
   \<and> \<not> authService_isAuthenticated
         (localStorage (snd (login alice_json ''alice'' ''pw'' (Inr (login_reply '''')) logged_out)))
   \<and> isAuthenticated (auth (snd (login alice_json ''alice'' ''pw'' (Inr (login_reply ''''))
         logged_out)))
   \<and> \<not> isAuthenticated (auth (checkAuth alice_json
         (snd (login alice_json ''alice'' ''pw'' (Inr (login_reply '''')) logged_out))))"
  by (simp add: login_def authService_login_def checkAuth_def setAuthData_def getItem_def setItem_def Let_def
      authService_isAuthenticated_def login_reply_def logged_out_def)

end
